theory Spec2Isabelle
  imports Main
begin

section \<open>JavaScript values, exceptions and promises\<close>

text \<open>
  The development embeds \<^verbatim>\<open>lib/taco-team-build/taco-team-build.js\<close>. Every function of
  that file becomes a HOL function of the same name. A function that reads or writes the
  module's global variables takes the state and returns the new one. A \<^verbatim>\<open>throw\<close> is the
  value \<open>Threw e\<close>; a function that returns a promise returns the state in which the promise
  ends once every callback chained on it has run. Console output is left out: it decides
  no branch.
\<close>

datatype jserr =
    Thrown string       \<comment> \<open>a string thrown with \<^verbatim>\<open>throw\<close>\<close>
  | TypeError string    \<comment> \<open>a TypeError raised by the runtime or a library\<close>
  | External string     \<comment> \<open>an error reported by the file system, a child process or the toolchain\<close>

datatype 'a outcome = Returned 'a | Threw jserr

text \<open>
  The state a promise ends in. \<open>Pending\<close>: it is never settled. \<open>Crashed e\<close>: an exception
  escaped from a callback that no promise handler encloses, so the process stops and
  nothing chained on the promise runs.
\<close>

datatype 'a promise = Fulfilled 'a | Rejected jserr | Pending | Crashed jserr

text \<open>
  The toolchain module: the object \<^verbatim>\<open>require\<close> returns, with its \<^verbatim>\<open>cordova\<close> property
  (\<open>None\<close> when the property is missing or falsy). An object is truthy.
\<close>

datatype handle = Handle string "handle option"

datatype jsval = VUndefined | VHandle handle

text \<open>A value that is \<^verbatim>\<open>undefined\<close> or a string is a \<open>string option\<close>.\<close>

definition js_or :: "string option \<Rightarrow> string \<Rightarrow> string" where
  \<comment> \<open>\<^verbatim>\<open>a || b\<close>: \<^verbatim>\<open>undefined\<close> and the empty string are falsy\<close>
  "js_or a b = (case a of None \<Rightarrow> b | Some s \<Rightarrow> if s = [] then b else s)"

definition js_truthy :: "string \<Rightarrow> bool" where
  "js_truthy s = (s \<noteq> [])"

definition js_of_bool :: "bool \<Rightarrow> string" where
  \<comment> \<open>a boolean concatenated to a string\<close>
  "js_of_bool b = (if b then ''true'' else ''false'')"

definition dquote :: string where
  "dquote = [CHR 0x22]"

section \<open>The semver package: \<^verbatim>\<open>semver.lt\<close>\<close>

text \<open>
  \<^verbatim>\<open>semver.lt(a, b)\<close> parses both strings strictly and compares them by semantic-version
  precedence; it throws a TypeError on a string that is no version. The numeric parts are
  unbounded naturals here.
\<close>

datatype prerelease_id = NumId nat | StrId string

record semver =
  major :: nat
  minor :: nat
  patch :: nat
  prerelease :: "prerelease_id list"

definition is_space :: "char \<Rightarrow> bool" where
  "is_space c = (c \<in> set [CHR 0x20, CHR 0x09, CHR 0x0A, CHR 0x0B, CHR 0x0C, CHR 0x0D])"

definition is_digit :: "char \<Rightarrow> bool" where
  "is_digit c = (c \<in> set ''0123456789'')"

definition is_ident_char :: "char \<Rightarrow> bool" where
  "is_ident_char c =
     (c \<in> set ''0123456789abcdefghijklmnopqrstuvwxyzABCDEFGHIJKLMNOPQRSTUVWXYZ-'')"

definition trim :: "string \<Rightarrow> string" where
  "trim s = rev (dropWhile is_space (rev (dropWhile is_space s)))"

fun split_on :: "char \<Rightarrow> string \<Rightarrow> string list" where
  "split_on d [] = [[]]"
| "split_on d (c # cs) =
     (if c = d then [] # split_on d cs
      else (case split_on d cs of [] \<Rightarrow> [[c]] | w # ws \<Rightarrow> (c # w) # ws))"

definition digits_val :: "string \<Rightarrow> nat" where
  "digits_val s = foldl (\<lambda>n c. 10 * n + (of_char c - 48)) 0 s"

definition parse_numeric :: "string \<Rightarrow> nat option" where
  \<comment> \<open>\<^verbatim>\<open>0|[1-9]\d*\<close>\<close>
  "parse_numeric s =
     (if s \<noteq> [] \<and> list_all is_digit s \<and> (length s = 1 \<or> hd s \<noteq> CHR ''0'')
      then Some (digits_val s) else None)"

definition parse_prerelease_id :: "string \<Rightarrow> prerelease_id option" where
  \<comment> \<open>\<^verbatim>\<open>0|[1-9]\d*|\d*[a-zA-Z-][a-zA-Z0-9-]*\<close>; an identifier of digits only is a number\<close>
  "parse_prerelease_id s =
     (if s = [] \<or> \<not> list_all is_ident_char s then None
      else if list_all is_digit s then map_option NumId (parse_numeric s)
      else Some (StrId s))"

definition valid_build_id :: "string \<Rightarrow> bool" where
  "valid_build_id s = (s \<noteq> [] \<and> list_all is_ident_char s)"

fun sequence_opt :: "'a option list \<Rightarrow> 'a list option" where
  "sequence_opt [] = Some []"
| "sequence_opt (x # xs) =
     (case x of None \<Rightarrow> None
      | Some y \<Rightarrow> (case sequence_opt xs of None \<Rightarrow> None | Some ys \<Rightarrow> Some (y # ys)))"

definition semver_parse :: "string \<Rightarrow> semver option" where
  "semver_parse raw =
     (let s0 = trim raw;
          s1 = (case s0 of c # cs \<Rightarrow> if c = CHR ''v'' then cs else s0 | [] \<Rightarrow> s0);
          main_pre = takeWhile (\<lambda>c. c \<noteq> CHR ''+'') s1;
          build = dropWhile (\<lambda>c. c \<noteq> CHR ''+'') s1;
          main = takeWhile (\<lambda>c. c \<noteq> CHR ''-'') main_pre;
          pre = dropWhile (\<lambda>c. c \<noteq> CHR ''-'') main_pre
      in if build \<noteq> [] \<and> \<not> list_all valid_build_id (split_on CHR ''.'' (tl build)) then None
         else
           (case sequence_opt (map parse_numeric (split_on CHR ''.'' main)) of
              Some [ma, mi, pa] \<Rightarrow>
                (if pre = [] then
                   Some \<lparr>major = ma, minor = mi, patch = pa, prerelease = []\<rparr>
                 else
                   (case sequence_opt (map parse_prerelease_id (split_on CHR ''.'' (tl pre))) of
                      Some ids \<Rightarrow> Some \<lparr>major = ma, minor = mi, patch = pa, prerelease = ids\<rparr>
                    | None \<Rightarrow> None))
            | _ \<Rightarrow> None))"

definition compare_nat :: "nat \<Rightarrow> nat \<Rightarrow> int" where
  "compare_nat a b = (if a < b then -1 else if b < a then 1 else 0)"

fun compare_string :: "string \<Rightarrow> string \<Rightarrow> int" where
  \<comment> \<open>JavaScript's \<^verbatim>\<open><\<close> on strings: by character code, a proper prefix first\<close>
  "compare_string [] [] = 0"
| "compare_string [] (b # bs) = -1"
| "compare_string (a # as) [] = 1"
| "compare_string (a # as) (b # bs) =
     (if (of_char a :: nat) < of_char b then -1
      else if (of_char b :: nat) < of_char a then 1
      else compare_string as bs)"

fun compareIdentifiers :: "prerelease_id \<Rightarrow> prerelease_id \<Rightarrow> int" where
  "compareIdentifiers (NumId a) (NumId b) = compare_nat a b"
| "compareIdentifiers (NumId a) (StrId b) = -1"
| "compareIdentifiers (StrId a) (NumId b) = 1"
| "compareIdentifiers (StrId a) (StrId b) = compare_string a b"

fun compare_ids :: "prerelease_id list \<Rightarrow> prerelease_id list \<Rightarrow> int" where
  "compare_ids [] [] = 0"
| "compare_ids (a # as) [] = 1"
| "compare_ids [] (b # bs) = -1"
| "compare_ids (a # as) (b # bs) =
     (if a = b then compare_ids as bs else compareIdentifiers a b)"

definition comparePre :: "semver \<Rightarrow> semver \<Rightarrow> int" where
  "comparePre x y =
     (if prerelease x \<noteq> [] \<and> prerelease y = [] then -1
      else if prerelease x = [] \<and> prerelease y \<noteq> [] then 1
      else if prerelease x = [] \<and> prerelease y = [] then 0
      else compare_ids (prerelease x) (prerelease y))"

definition compareMain :: "semver \<Rightarrow> semver \<Rightarrow> int" where
  "compareMain x y =
     (if compare_nat (major x) (major y) \<noteq> 0 then compare_nat (major x) (major y)
      else if compare_nat (minor x) (minor y) \<noteq> 0 then compare_nat (minor x) (minor y)
      else compare_nat (patch x) (patch y))"

definition compare :: "semver \<Rightarrow> semver \<Rightarrow> int" where
  "compare x y = (if compareMain x y \<noteq> 0 then compareMain x y else comparePre x y)"

definition semver_lt :: "string \<Rightarrow> string \<Rightarrow> bool outcome" where
  "semver_lt a b =
     (case semver_parse a of
        None \<Rightarrow> Threw (TypeError (''Invalid Version: '' @ a))
      | Some x \<Rightarrow>
          (case semver_parse b of
             None \<Rightarrow> Threw (TypeError (''Invalid Version: '' @ b))
           | Some y \<Rightarrow> Returned (compare x y < 0)))"

section \<open>Arguments of a build or package call\<close>

text \<open>
  The platforms given to \<^verbatim>\<open>buildProject\<close>, \<^verbatim>\<open>packageProject\<close> and \<^verbatim>\<open>getCallArgs\<close>: one
  platform name, or an array of names. The args: \<^verbatim>\<open>undefined\<close>, an array of options, or an
  object with an array of options per platform.
\<close>

datatype platform_arg = PStr string | PArr "string list"

datatype args = ArgsUndefined | ArgsArray "string list" | ArgsObject "string \<Rightarrow> string list option"

record callargs =
  platforms :: "string list"
  options :: "string list option"    \<comment> \<open>\<open>None\<close>: the field is \<^verbatim>\<open>undefined\<close>\<close>

definition getCallArgs :: "platform_arg \<Rightarrow> args \<Rightarrow> callargs option" where
  \<comment> \<open>\<open>None\<close>: the function falls off its end and returns \<^verbatim>\<open>undefined\<close>. By
      \<^verbatim>\<open>args = args || []\<close> an undefined \<open>args\<close> is the empty array\<close>
  "getCallArgs plats args =
     (let ps = (case plats of PStr s \<Rightarrow> [s] | PArr l \<Rightarrow> l)
      in if length ps = 1 then
           (case args of
              ArgsUndefined \<Rightarrow> Some \<lparr>platforms = ps, options = Some []\<rparr>
            | ArgsArray a \<Rightarrow> Some \<lparr>platforms = ps, options = Some a\<rparr>
            | ArgsObject m \<Rightarrow> Some \<lparr>platforms = ps, options = m (hd ps)\<rparr>)
         else None)"

section \<open>The world outside the module\<close>

text \<open>
  The asynchronous operations the module starts. The trace records \<open>Start c\<close> when the
  operation is started and \<open>Finish c\<close> when its promise is fulfilled (its callback is called
  without an error).
\<close>

datatype call =
    Exec string "string option"      \<comment> \<open>\<^verbatim>\<open>exec(command, {cwd: ...})\<close>\<close>
  | Glob string
  | PlatformAdd handle string        \<comment> \<open>\<^verbatim>\<open>cordova.raw.platform('add', platform)\<close>\<close>
  | Build handle callargs            \<comment> \<open>\<^verbatim>\<open>cordova.raw.build(callArgs)\<close>\<close>
  | PluginAdd handle string          \<comment> \<open>\<^verbatim>\<open>cdv.raw.plugin("add", path)\<close>\<close>

datatype event = Start call | Finish call

text \<open>
  Node's libraries, the file system, child processes and the toolchain are parameters:
  \<open>'x\<close> is the state of everything outside the module (files, the working directory),
  and each operation is a function of that state. Nothing is assumed about them.
\<close>

record 'x node =
  dirname :: string                                   \<comment> \<open>\<^verbatim>\<open>__dirname\<close>\<close>
  path_join :: "string list \<Rightarrow> string"
  path_resolve :: "string \<Rightarrow> 'x \<Rightarrow> string"           \<comment> \<open>reads the working directory\<close>
  path_dirname :: "string \<Rightarrow> string"
  path_basename :: "string \<Rightarrow> string \<Rightarrow> string"
  existsSync :: "string \<Rightarrow> 'x \<Rightarrow> bool"
  mkdirSync :: "string \<Rightarrow> 'x \<Rightarrow> unit outcome \<times> 'x"
  readFileSync :: "string \<Rightarrow> 'x \<Rightarrow> string outcome"
  chdir :: "string \<Rightarrow> 'x \<Rightarrow> unit outcome \<times> 'x"
  require_json :: "string \<Rightarrow> string \<Rightarrow> 'x \<Rightarrow> string option outcome"
    \<comment> \<open>\<^verbatim>\<open>require(file)[field]\<close>\<close>
  require_module :: "string \<Rightarrow> 'x \<Rightarrow> handle outcome"
  exec :: "string \<Rightarrow> string option \<Rightarrow> 'x \<Rightarrow> (string \<times> string) promise \<times> 'x"
    \<comment> \<open>the promise of \<^verbatim>\<open>Q.nfbind(child_process.exec)\<close>: stdout and stderr\<close>
  glob :: "string \<Rightarrow> 'x \<Rightarrow> string list promise \<times> 'x"
    \<comment> \<open>\<open>Rejected e\<close>: the callback gets the error \<open>e\<close>\<close>
  raw_platform_add :: "handle \<Rightarrow> string \<Rightarrow> 'x \<Rightarrow> unit promise outcome \<times> 'x"
  raw_build :: "handle \<Rightarrow> callargs \<Rightarrow> 'x \<Rightarrow> unit promise outcome \<times> 'x"
  raw_plugin_add :: "handle \<Rightarrow> string \<Rightarrow> 'x \<Rightarrow> unit promise outcome \<times> 'x"

text \<open>The module's global variables, the two environment variables it sets, and the world.\<close>

record 'x world =
  cordovaCache :: string
  defaultCordovaVersion :: string
  projectPath :: string
  cordovaVersion :: "string option"
  loadedCordovaVersion :: "string option"
  cdv :: "handle option"
  CORDOVA_HOME :: "string option"
  PLUGMAN_HOME :: "string option"
  ext :: 'x
  trace :: "event list"

subsection \<open>Constants and the module's initial state\<close>

definition DEFAULT_CORDOVA_VERSION :: string where
  "DEFAULT_CORDOVA_VERSION = ''5.1.1''"

definition SUPPORT_PLUGIN_ID :: string where
  "SUPPORT_PLUGIN_ID = ''cordova-plugin-vs-taco-support''"

definition SUPPORT_PLUGIN :: "'x node \<Rightarrow> string" where
  "SUPPORT_PLUGIN node = path_join node [dirname node, ''cordova-plugin-vs-taco-support'']"

definition CORDOVA_LIB :: string where
  "CORDOVA_LIB = ''cordova-lib''"

definition CORDOVA :: string where
  "CORDOVA = ''cordova''"

text \<open>
  The global variables after the module is loaded (lines 26 to 31), from the environment
  variables \<^verbatim>\<open>CORDOVA_CACHE\<close> and \<^verbatim>\<open>CORDOVA_DEFAULT_VERSION\<close>, the platform's default cache
  directory and the working directory.
\<close>

definition initial_world ::
  "string option \<Rightarrow> string \<Rightarrow> string option \<Rightarrow> string \<Rightarrow> 'x \<Rightarrow> 'x world" where
  "initial_world env_CORDOVA_CACHE platform_cache env_CORDOVA_DEFAULT_VERSION cwd x =
     \<lparr>cordovaCache = js_or env_CORDOVA_CACHE platform_cache,
      defaultCordovaVersion = js_or env_CORDOVA_DEFAULT_VERSION DEFAULT_CORDOVA_VERSION,
      projectPath = cwd,
      cordovaVersion = None,
      loadedCordovaVersion = None,
      cdv = None,
      CORDOVA_HOME = None,
      PLUGMAN_HOME = None,
      ext = x,
      trace = []\<rparr>"

subsection \<open>Starting an operation, chaining on a promise\<close>

definition finished :: "call \<Rightarrow> 'a promise \<Rightarrow> event list" where
  "finished c p = (case p of Fulfilled v \<Rightarrow> [Finish c] | _ \<Rightarrow> [])"

definition exec_call ::
  "'x node \<Rightarrow> string \<Rightarrow> string option \<Rightarrow> 'x world \<Rightarrow> (string \<times> string) promise \<times> 'x world" where
  "exec_call node cmd dir w =
     (case exec node cmd dir (ext w) of
        (p, x) \<Rightarrow> (p, w\<lparr>ext := x,
                         trace := trace w @ Start (Exec cmd dir) # finished (Exec cmd dir) p\<rparr>))"

definition glob_call :: "'x node \<Rightarrow> string \<Rightarrow> 'x world \<Rightarrow> string list promise \<times> 'x world" where
  "glob_call node pat w =
     (case glob node pat (ext w) of
        (p, x) \<Rightarrow> (p, w\<lparr>ext := x, trace := trace w @ Start (Glob pat) # finished (Glob pat) p\<rparr>))"

definition run_tool :: "'x node \<Rightarrow> call \<Rightarrow> 'x \<Rightarrow> unit promise outcome \<times> 'x" where
  \<comment> \<open>the toolchain's answer to one of its three commands; the module never hands it
      another call\<close>
  "run_tool node c x =
     (case c of
        PlatformAdd h p \<Rightarrow> raw_platform_add node h p x
      | Build h ca \<Rightarrow> raw_build node h ca x
      | PluginAdd h p \<Rightarrow> raw_plugin_add node h p x
      | _ \<Rightarrow> (Threw (TypeError ''not a toolchain call''), x))"

definition tool_call :: "'x node \<Rightarrow> call \<Rightarrow> 'x world \<Rightarrow> unit promise outcome \<times> 'x world" where
  \<comment> \<open>a call of the toolchain: it throws, or returns a promise\<close>
  "tool_call node c w =
     (case run_tool node c (ext w) of
        (r, x) \<Rightarrow>
          (r, w\<lparr>ext := x,
                trace := trace w @ Start c #
                  (case r of Returned p \<Rightarrow> finished c p | Threw e \<Rightarrow> [])\<rparr>))"

text \<open>
  \<^verbatim>\<open>promise.then(f)\<close>: \<open>f\<close> runs once the promise is fulfilled; an exception of \<open>f\<close> rejects
  the new promise, a promise \<open>f\<close> returns settles it. On a promise that is not fulfilled
  \<open>f\<close> never runs.
\<close>

definition settle :: "'a promise outcome \<times> 'w \<Rightarrow> 'a promise \<times> 'w" where
  "settle r = (case r of (Returned p, w) \<Rightarrow> (p, w) | (Threw e, w) \<Rightarrow> (Rejected e, w))"

definition then_p ::
  "'a promise \<Rightarrow> ('a \<Rightarrow> 'w \<Rightarrow> 'b promise outcome \<times> 'w) \<Rightarrow> 'w \<Rightarrow> 'b promise \<times> 'w" where
  "then_p p f w =
     (case p of
        Fulfilled v \<Rightarrow> settle (f v w)
      | Rejected e \<Rightarrow> (Rejected e, w)
      | Pending \<Rightarrow> (Pending, w)
      | Crashed e \<Rightarrow> (Crashed e, w))"

text \<open>
  A promise that a loop builds before any of its callbacks has run is the computation
  that will settle it: \<open>Q v\<close> is fulfilled already, and \<open>then_c\<close> chains a callback.
\<close>

type_synonym ('a, 'w) chain = "'w \<Rightarrow> 'a promise \<times> 'w"

definition Q :: "'a \<Rightarrow> ('a, 'w) chain" where
  "Q v = (\<lambda>w. (Fulfilled v, w))"

definition then_c ::
  "('a, 'w) chain \<Rightarrow> ('a \<Rightarrow> 'w \<Rightarrow> 'b promise outcome \<times> 'w) \<Rightarrow> ('b, 'w) chain" where
  "then_c c f = (\<lambda>w. case c w of (p, w') \<Rightarrow> then_p p f w')"

section \<open>configure and setupCordova\<close>

text \<open>
  The object given to \<^verbatim>\<open>configure\<close>, with its properties \<^verbatim>\<open>cordovaCache\<close>,
  \<^verbatim>\<open>cordovaVersion\<close> and \<^verbatim>\<open>projectPath\<close>; \<open>None\<close> is a property that is \<^verbatim>\<open>undefined\<close>.
\<close>

record config =
  opt_cordovaCache :: "string option"
  opt_cordovaVersion :: "string option"
  opt_projectPath :: "string option"

definition configure :: "'x node \<Rightarrow> config \<Rightarrow> 'x world \<Rightarrow> unit outcome \<times> 'x world" where
  "configure node obj w =
     (let w1 = (case opt_cordovaCache obj of Some c \<Rightarrow> w\<lparr>cordovaCache := c\<rparr> | None \<Rightarrow> w);
          w2 = (case opt_cordovaVersion obj of
                  Some v \<Rightarrow> w1\<lparr>cordovaVersion := Some v\<rparr> | None \<Rightarrow> w1);
          w3 = (case opt_projectPath obj of
                  Some p \<Rightarrow> w2\<lparr>projectPath := path_resolve node p (ext w2)\<rparr> | None \<Rightarrow> w2)
      in if \<not> existsSync node (projectPath w3) (ext w3)
         then (Threw (Thrown (''Specified project path does not exist: '' @ dquote
                 @ projectPath w3 @ dquote)), w3)
         else (Returned (), w3))"

text \<open>The package \<^verbatim>\<open>getCordova\<close> loads: the conditional of line 203.\<close>

definition package_name :: "bool \<Rightarrow> string" where
  "package_name lt = (if lt then CORDOVA else CORDOVA_LIB)"

definition getCordova_load ::
  "'x node \<Rightarrow> 'x world \<Rightarrow> handle promise outcome \<times> 'x world" where
  \<comment> \<open>lines 199 to 214: the branch that loads the module. The callback of line 210
      returns \<^verbatim>\<open>cdv\<close>, which is still the handle \<open>h\<close> set at line 203 or 205: the call of
      the plugin command writes no variable of the module\<close>
  "getCordova_load node w =
     (let w1 = w\<lparr>loadedCordovaVersion := cordovaVersion w\<rparr> in
      case chdir node (projectPath w1) (ext w1) of
        (Threw e, x) \<Rightarrow> (Threw e, w1\<lparr>ext := x\<rparr>)
      | (Returned u, x) \<Rightarrow>
         (let w2 = w1\<lparr>ext := x,
                      CORDOVA_HOME := Some (path_join node [cordovaCache w1, ''_cordova'']),
                      PLUGMAN_HOME := Some (path_join node [cordovaCache w1, ''_plugman''])\<rparr>
          in case cordovaVersion w2 of
               None \<Rightarrow> (Threw (TypeError ''Invalid Version: undefined''), w2)
             | Some v \<Rightarrow>
                (case semver_lt v ''3.7.0'' of
                   Threw e \<Rightarrow> (Threw e, w2)
                 | Returned lt \<Rightarrow>
                    (case require_module node
                            (path_join node [cordovaCache w2, v, ''node_modules'',
                                             package_name lt]) (ext w2) of
                       Threw e \<Rightarrow> (Threw e, w2)
                     | Returned (Handle m nested) \<Rightarrow>
                        (let h = (case nested of Some n \<Rightarrow> n | None \<Rightarrow> Handle m nested);
                             w3 = w2\<lparr>cdv := Some h\<rparr>
                         in if \<not> existsSync node
                                  (path_join node [projectPath w3, ''plugins'', SUPPORT_PLUGIN_ID])
                                  (ext w3)
                            then
                              (case tool_call node (PluginAdd h (SUPPORT_PLUGIN node)) w3 of
                                 (Threw e, w4) \<Rightarrow> (Threw e, w4)
                               | (Returned p, w4) \<Rightarrow>
                                   (case then_p p (\<lambda>u w'. (Returned (Fulfilled h), w')) w4 of
                                      (q, w5) \<Rightarrow> (Returned q, w5)))
                            else (Returned (Fulfilled h), w3))))))"

definition getCordova :: "'x node \<Rightarrow> 'x world \<Rightarrow> handle promise outcome \<times> 'x world" where
  \<comment> \<open>\<^verbatim>\<open>cdv === undefined || loadedCordovaVersion != cordovaVersion\<close>\<close>
  "getCordova node w =
     (case cdv w of
        None \<Rightarrow> getCordova_load node w
      | Some c \<Rightarrow>
          if loadedCordovaVersion w \<noteq> cordovaVersion w then getCordova_load node w
          else (Returned (Fulfilled c), w))"

definition handleExecReturn :: "string \<times> string \<Rightarrow> 'w \<Rightarrow> unit promise outcome \<times> 'w" where
  \<comment> \<open>lines 238 to 244: it prints stdout and stderr and returns \<^verbatim>\<open>undefined\<close>\<close>
  "handleExecReturn result w = (Returned (Fulfilled ()), w)"

text \<open>
  The command line 81 to 83 hands to \<^verbatim>\<open>exec\<close>. In JavaScript \<^verbatim>\<open>+\<close> binds tighter than
  \<^verbatim>\<open>? :\<close>, so the expression reads
  \<^verbatim>\<open>("npm install " + semver.lt(v, "3.7.0")) ? CORDOVA : (CORDOVA_LIB + "@" + v)\<close>.
\<close>

definition install_command :: "string \<Rightarrow> bool \<Rightarrow> string" where
  "install_command v lt =
     (if js_truthy (''npm install '' @ js_of_bool lt) then CORDOVA
      else CORDOVA_LIB @ ''@'' @ v)"

definition setupCordova_version :: "'x node \<Rightarrow> 'x world \<Rightarrow> unit outcome \<times> 'x world" where
  \<comment> \<open>lines 55 to 64: the version, when none is set\<close>
  "setupCordova_version node w =
     (if cordovaVersion w = None then
        (if existsSync node (path_join node [projectPath w, ''taco.json'']) (ext w) then
           (case require_json node (path_join node [projectPath w, ''taco.json''])
                   ''cordova-cli'' (ext w) of
              Threw e \<Rightarrow> (Threw e, w)
            | Returned v \<Rightarrow> (Returned (), w\<lparr>cordovaVersion := v\<rparr>))
         else (Returned (), w\<lparr>cordovaVersion := Some (defaultCordovaVersion w)\<rparr>))
      else (Returned (), w))"

definition mkdir_call :: "'x node \<Rightarrow> string \<Rightarrow> 'x world \<Rightarrow> unit outcome \<times> 'x world" where
  "mkdir_call node p w = (case mkdirSync node p (ext w) of (r, x) \<Rightarrow> (r, w\<lparr>ext := x\<rparr>))"

definition setupCordova_cache :: "'x node \<Rightarrow> 'x world \<Rightarrow> unit outcome \<times> 'x world" where
  \<comment> \<open>lines 66 to 72: the cache directory\<close>
  "setupCordova_cache node w =
     (if \<not> existsSync node (cordovaCache w) (ext w) then mkdir_call node (cordovaCache w) w
      else (Returned (), w))"

definition setupCordova_install ::
  "'x node \<Rightarrow> 'x world \<Rightarrow> handle promise outcome \<times> 'x world" where
  \<comment> \<open>lines 74 to 89: install the version when its directory is missing, then load it\<close>
  "setupCordova_install node w =
     (case cordovaVersion w of
        None \<Rightarrow> (Threw (TypeError ''Arguments to path.join must be strings''), w)
      | Some v \<Rightarrow>
         (let cordovaModulePath = path_resolve node (path_join node [cordovaCache w, v]) (ext w)
          in if \<not> existsSync node cordovaModulePath (ext w) then
               (case mkdir_call node cordovaModulePath w of
                  (Threw e, w1) \<Rightarrow> (Threw e, w1)
                | (Returned u, w1) \<Rightarrow>
                   (case mkdir_call node (path_join node [cordovaModulePath, ''node_modules'']) w1 of
                      (Threw e, w2) \<Rightarrow> (Threw e, w2)
                    | (Returned u, w2) \<Rightarrow>
                       (case semver_lt v ''3.7.0'' of
                          Threw e \<Rightarrow> (Threw e, w2)
                        | Returned lt \<Rightarrow>
                           (case exec_call node (install_command v lt) (Some cordovaModulePath) w2 of
                              (p, w3) \<Rightarrow>
                                (case then_p p handleExecReturn w3 of
                                   (p', w4) \<Rightarrow>
                                     (case then_p p' (\<lambda>u. getCordova node) w4 of
                                        (q, w5) \<Rightarrow> (Returned q, w5)))))))
             else getCordova node w))"

definition setupCordova_fresh ::
  "'x node \<Rightarrow> 'x world \<Rightarrow> handle promise outcome \<times> 'x world" where
  \<comment> \<open>lines 55 to 89, in order\<close>
  "setupCordova_fresh node w =
     (case setupCordova_version node w of
        (Threw e, w1) \<Rightarrow> (Threw e, w1)
      | (Returned u, w1) \<Rightarrow>
         (case setupCordova_cache node w1 of
            (Threw e, w2) \<Rightarrow> (Threw e, w2)
          | (Returned u, w2) \<Rightarrow> setupCordova_install node w2))"

definition setupCordova ::
  "'x node \<Rightarrow> config option \<Rightarrow> 'x world \<Rightarrow> handle promise outcome \<times> 'x world" where
  \<comment> \<open>\<open>obj = None\<close>: the function is called without an argument. Line 51 is
      \<^verbatim>\<open>if (cdv && cordovaVersion === loadedCordovaVersion) return Q(cdv)\<close>\<close>
  "setupCordova node obj w0 =
     (case (case obj of None \<Rightarrow> (Returned (), w0) | Some ob \<Rightarrow> configure node ob w0) of
        (Threw e, w) \<Rightarrow> (Threw e, w)
      | (Returned u, w) \<Rightarrow>
         (case cdv w of
            Some c \<Rightarrow>
              if cordovaVersion w = loadedCordovaVersion w then (Returned (Fulfilled c), w)
              else setupCordova_fresh node w
          | None \<Rightarrow> setupCordova_fresh node w))"

section \<open>buildProject\<close>

definition addPlatformsToProject ::
  "'x node \<Rightarrow> handle \<Rightarrow> string list \<Rightarrow> 'x world \<Rightarrow> (unit, 'x world) chain" where
  \<comment> \<open>\<open>w\<close> is the state when the loop runs: every \<^verbatim>\<open>existsSync\<close> is evaluated then, before
      any callback of the chain\<close>
  "addPlatformsToProject node cordova cordovaPlatforms w =
     foldl (\<lambda>promise platform.
              if \<not> existsSync node (path_join node [projectPath w, ''platforms'', platform]) (ext w)
              then then_c promise (\<lambda>u. tool_call node (PlatformAdd cordova platform))
              else promise)
           (Q ()) cordovaPlatforms"

definition buildProject_step ::
  "'x node \<Rightarrow> handle \<Rightarrow> args \<Rightarrow> string \<Rightarrow> 'x world \<Rightarrow> unit promise outcome \<times> 'x world" where
  \<comment> \<open>lines 103 to 108: the callback chained for one platform\<close>
  "buildProject_step node cordova args platform w =
     (case getCallArgs (PStr platform) args of
        None \<Rightarrow> (Threw (TypeError ''Cannot read property options of undefined''), w)
      | Some callArgs \<Rightarrow> tool_call node (Build cordova callArgs) w)"

definition buildProject_chain ::
  "'x node \<Rightarrow> string list \<Rightarrow> args \<Rightarrow> handle \<Rightarrow> 'x world \<Rightarrow> unit promise outcome \<times> 'x world" where
  \<comment> \<open>lines 98 to 111: the callback chained on \<^verbatim>\<open>setupCordova()\<close>\<close>
  "buildProject_chain node cordovaPlatforms args cordova w =
     (let promise0 = addPlatformsToProject node cordova cordovaPlatforms w;
          promise = foldl (\<lambda>promise platform.
                             then_c promise (\<lambda>u. buildProject_step node cordova args platform))
                          promise0 cordovaPlatforms
      in case promise w of (q, w') \<Rightarrow> (Returned q, w'))"

definition platform_list :: "platform_arg \<Rightarrow> string list" where
  \<comment> \<open>\<^verbatim>\<open>if (typeof (cordovaPlatforms) == "string") cordovaPlatforms = [cordovaPlatforms]\<close>\<close>
  "platform_list cordovaPlatforms = (case cordovaPlatforms of PStr s \<Rightarrow> [s] | PArr l \<Rightarrow> l)"

definition buildProject ::
  "'x node \<Rightarrow> platform_arg \<Rightarrow> args \<Rightarrow> 'x world \<Rightarrow> unit promise outcome \<times> 'x world" where
  "buildProject node cordovaPlatforms args w =
     (case setupCordova node None w of
        (Threw e, w1) \<Rightarrow> (Threw e, w1)
      | (Returned p, w1) \<Rightarrow>
          (case then_p p (buildProject_chain node (platform_list cordovaPlatforms) args) w1 of
             (q, w2) \<Rightarrow> (Returned q, w2)))"

section \<open>packageProject and createIpa\<close>

definition iosVersionFilePath :: "'x node \<Rightarrow> 'x world \<Rightarrow> string" where
  \<comment> \<open>line 150\<close>
  "iosVersionFilePath node w =
     path_join node [projectPath w, ''platforms'', ''ios'', ''CordovaLib'', ''VERSION'']"

definition createIpa_version :: "'x node \<Rightarrow> 'x world \<Rightarrow> string outcome" where
  \<comment> \<open>lines 149 to 157: the version of the installed iOS platform, \<^verbatim>\<open>iosPlatformVersion\<close>\<close>
  "createIpa_version node w =
     (if existsSync node (iosVersionFilePath node w) (ext w) then
        (case readFileSync node (iosVersionFilePath node w) (ext w) of
           Threw e \<Rightarrow> Threw e
         | Returned text \<Rightarrow> Returned (filter (\<lambda>c. \<not> is_space c) text))
      else Returned ''4.0.0'')"

definition ios_glob_pattern :: "'x world \<Rightarrow> string" where
  \<comment> \<open>line 160: the pattern given to \<^verbatim>\<open>glob\<close>\<close>
  "ios_glob_pattern w = projectPath w @ ''/platforms/ios/build/device/*.app''"

definition xcrun_command :: "'x node \<Rightarrow> string \<Rightarrow> string" where
  \<comment> \<open>lines 167 and 168\<close>
  "xcrun_command node m =
     ''xcrun -sdk iphoneos PackageApplication '' @ dquote @ m @ dquote @ '' -o '' @ dquote
       @ path_join node [path_dirname node m, path_basename node m ''.app'']
       @ ''.ipa'' @ dquote @ '' ''"

definition createIpa_package ::
  "'x node \<Rightarrow> args \<Rightarrow> string list \<Rightarrow> 'x world \<Rightarrow> jsval promise \<times> 'x world" where
  \<comment> \<open>lines 164 to 185: the callback of \<^verbatim>\<open>glob\<close>, given the matches; the promise is
      \<^verbatim>\<open>deferred.promise\<close>\<close>
  "createIpa_package node args matches w =
     (if length matches \<noteq> 1 then (Pending, w)
      else
        (case getCallArgs (PStr ''ios'') args of
           None \<Rightarrow> (Crashed (TypeError ''Cannot read property options of undefined''), w)
         | Some callArgs \<Rightarrow>
            (case options callArgs of
               None \<Rightarrow> (Crashed (TypeError ''Cannot read property forEach of undefined''), w)
             | Some opts \<Rightarrow>
                (let cmdString = foldl (\<lambda>cmd arg. cmd @ '' '' @ arg)
                                       (xcrun_command node (hd matches)) opts
                 in case exec_call node cmdString None w of
                      (Fulfilled result, w1) \<Rightarrow> (Fulfilled VUndefined, w1)
                    | (Rejected e, w1) \<Rightarrow> (Rejected e, w1)
                    | (Pending, w1) \<Rightarrow> (Pending, w1)
                    | (Crashed e, w1) \<Rightarrow> (Crashed e, w1)))))"

definition createIpa ::
  "'x node \<Rightarrow> 'c \<Rightarrow> args \<Rightarrow> 'x world \<Rightarrow> jsval promise outcome \<times> 'x world" where
  \<comment> \<open>\<^verbatim>\<open>function createIpa(cordova, args)\<close>; the first parameter is never read\<close>
  "createIpa node cordova args w =
     (case createIpa_version node w of
        Threw e \<Rightarrow> (Threw e, w)
      | Returned iosPlatformVersion \<Rightarrow>
         (case semver_lt iosPlatformVersion ''3.9.0'' of
            Threw e \<Rightarrow> (Threw e, w)
          | Returned True \<Rightarrow>
             (case glob_call node (ios_glob_pattern w) w of
                (Fulfilled matches, w1) \<Rightarrow>
                  (case createIpa_package node args matches w1 of (q, w2) \<Rightarrow> (Returned q, w2))
              | (Rejected err, w1) \<Rightarrow> (Returned (Rejected err), w1)
              | (Pending, w1) \<Rightarrow> (Returned Pending, w1)
              | (Crashed e, w1) \<Rightarrow> (Returned (Crashed e), w1))
          | Returned False \<Rightarrow> (Returned (Fulfilled VUndefined), w)))"

definition packageProject_chain ::
  "'x node \<Rightarrow> string list \<Rightarrow> args \<Rightarrow> handle \<Rightarrow> 'x world \<Rightarrow> jsval promise outcome \<times> 'x world" where
  \<comment> \<open>lines 133 to 143: the callback chained on \<^verbatim>\<open>setupCordova()\<close>. Line 137 calls
      \<^verbatim>\<open>createIpa(args)\<close>: \<open>args\<close> is bound to the parameter \<^verbatim>\<open>cordova\<close>, and the parameter
      \<^verbatim>\<open>args\<close> is \<^verbatim>\<open>undefined\<close>\<close>
  "packageProject_chain node cordovaPlatforms args cordova w =
     (let promise = foldl (\<lambda>promise platform.
                             if platform = ''ios''
                             then then_c promise (\<lambda>u. createIpa node args ArgsUndefined)
                             else promise)
                          (Q (VHandle cordova)) cordovaPlatforms
      in case promise w of (q, w') \<Rightarrow> (Returned q, w'))"

definition packageProject ::
  "'x node \<Rightarrow> platform_arg \<Rightarrow> args \<Rightarrow> 'x world \<Rightarrow> jsval promise outcome \<times> 'x world" where
  "packageProject node cordovaPlatforms args w =
     (case setupCordova node None w of
        (Threw e, w1) \<Rightarrow> (Threw e, w1)
      | (Returned p, w1) \<Rightarrow>
          (case then_p p (packageProject_chain node (platform_list cordovaPlatforms) args) w1 of
             (q, w2) \<Rightarrow> (Returned q, w2)))"

section \<open>Notions the properties are stated with\<close>

definition effective_projectPath :: "'x node \<Rightarrow> config \<Rightarrow> 'x world \<Rightarrow> string" where
  \<comment> \<open>the project path \<^verbatim>\<open>configure\<close> checks: the resolved option, or the path set before\<close>
  "effective_projectPath node obj w =
     (case opt_projectPath obj of
        None \<Rightarrow> projectPath w
      | Some p \<Rightarrow> path_resolve node p (ext w))"

text \<open>The child processes a trace started: each command with its working directory.\<close>

fun exec_of :: "event \<Rightarrow> (string \<times> string option) list" where
  "exec_of (Start (Exec cmd dir)) = [(cmd, dir)]"
| "exec_of e = []"

definition execs :: "event list \<Rightarrow> (string \<times> string option) list" where
  "execs tr = concat (map exec_of tr)"

definition keeps_version :: "config option \<Rightarrow> string \<Rightarrow> bool" where
  \<comment> \<open>the argument of a call of \<^verbatim>\<open>setupCordova\<close> that leaves the version \<open>v\<close> in place\<close>
  "keeps_version obj v =
     (case obj of
        None \<Rightarrow> True
      | Some ob \<Rightarrow> opt_cordovaVersion ob = None \<or> opt_cordovaVersion ob = Some v)"

text \<open>
  The version the specification describes, from its three optional sources: the version
  set with \<^verbatim>\<open>configure\<close>, the version found in \<^verbatim>\<open>taco.json\<close>, the environment variable
  \<^verbatim>\<open>CORDOVA_DEFAULT_VERSION\<close>.
\<close>

definition claimed_version :: "string option \<Rightarrow> string option \<Rightarrow> string option \<Rightarrow> string" where
  "claimed_version configured taco env =
     (case configured of
        Some v \<Rightarrow> v
      | None \<Rightarrow>
          (case taco of
             Some v \<Rightarrow> v
           | None \<Rightarrow> (case env of Some v \<Rightarrow> v | None \<Rightarrow> ''5.1.1'')))"

text \<open>
  The sequence of toolchain calls the specification describes for a build: one
  registration for every platform whose directory is missing when the chain is built, in
  the order of the list, then one build per platform, in the order of the list.
\<close>

definition platform_options :: "args \<Rightarrow> string \<Rightarrow> string list option" where
  "platform_options args p =
     (case args of ArgsUndefined \<Rightarrow> Some [] | ArgsArray a \<Rightarrow> Some a | ArgsObject m \<Rightarrow> m p)"

definition build_call :: "handle \<Rightarrow> args \<Rightarrow> string \<Rightarrow> call" where
  "build_call cordova args p =
     Build cordova \<lparr>platforms = [p], options = platform_options args p\<rparr>"

definition unregistered :: "'x node \<Rightarrow> 'x world \<Rightarrow> string \<Rightarrow> bool" where
  "unregistered node w p =
     (\<not> existsSync node (path_join node [projectPath w, ''platforms'', p]) (ext w))"

definition build_steps ::
  "'x node \<Rightarrow> handle \<Rightarrow> string list \<Rightarrow> args \<Rightarrow> 'x world \<Rightarrow> call list" where
  "build_steps node cordova ps args w =
     map (PlatformAdd cordova) (filter (unregistered node w) ps)
       @ map (build_call cordova args) ps"

text \<open>The trace of calls that ran one after the other, each fulfilled before the next.\<close>

definition completed :: "call list \<Rightarrow> event list" where
  "completed cs = concat (map (\<lambda>c. [Start c, Finish c]) cs)"

text \<open>
  Running a list of steps in order: each step starts once the one before is fulfilled, and
  the first step that is not fulfilled ends the run.
\<close>

fun run_list ::
  "('b \<Rightarrow> 'w \<Rightarrow> unit promise outcome \<times> 'w) \<Rightarrow> 'b list \<Rightarrow> 'w \<Rightarrow> unit promise \<times> 'w" where
  "run_list f [] w = (Fulfilled (), w)"
| "run_list f (x # xs) w =
     (case settle (f x w) of
        (Fulfilled u, w') \<Rightarrow> run_list f xs w'
      | (Rejected e, w') \<Rightarrow> (Rejected e, w')
      | (Pending, w') \<Rightarrow> (Pending, w')
      | (Crashed e, w') \<Rightarrow> (Crashed e, w'))"

definition after :: "(unit, 'w) chain \<Rightarrow> (unit, 'w) chain \<Rightarrow> (unit, 'w) chain" where
  "after c d =
     (\<lambda>w. case c w of
        (Fulfilled u, w') \<Rightarrow> d w'
      | (Rejected e, w') \<Rightarrow> (Rejected e, w')
      | (Pending, w') \<Rightarrow> (Pending, w')
      | (Crashed e, w') \<Rightarrow> (Crashed e, w'))"

section \<open>A concrete environment\<close>

text \<open>
  An environment to run the functions in: the world is the list of the paths that exist,
  paths are joined with a slash, every external operation succeeds, \<^verbatim>\<open>taco.json\<close> has no
  \<^verbatim>\<open>cordova-cli\<close> field, the iOS version file reads 3.8.0 and \<^verbatim>\<open>glob\<close> finds nothing.
\<close>

fun join_with :: "string \<Rightarrow> string list \<Rightarrow> string" where
  "join_with sep [] = []"
| "join_with sep [p] = p"
| "join_with sep (p # q # ps) = p @ sep @ join_with sep (q # ps)"

definition strip_suffix :: "string \<Rightarrow> string \<Rightarrow> string" where
  "strip_suffix suf s =
     (if length suf \<le> length s \<and> drop (length s - length suf) s = suf
      then take (length s - length suf) s else s)"

definition test_node :: "string list node" where
  "test_node =
     \<lparr>dirname = ''/task'',
      path_join = join_with ''/'',
      path_resolve = (\<lambda>p x. p),
      path_dirname = (\<lambda>p. join_with ''/'' (butlast (split_on CHR ''/'' p))),
      path_basename = (\<lambda>p suf. strip_suffix suf (last (split_on CHR ''/'' p))),
      existsSync = (\<lambda>p x. p \<in> set x),
      mkdirSync = (\<lambda>p x. (Returned (), p # x)),
      readFileSync = (\<lambda>p x. Returned ''3.8.0''),
      chdir = (\<lambda>p x. (Returned (), x)),
      require_json = (\<lambda>p f x. Returned None),
      require_module = (\<lambda>p x. Returned (Handle p None)),
      exec = (\<lambda>c d x. (Fulfilled ([], []), x)),
      glob = (\<lambda>pat x. (Fulfilled [], x)),
      raw_platform_add = (\<lambda>h p x. (Returned (Fulfilled ()), x)),
      raw_build = (\<lambda>h ca x. (Returned (Fulfilled ()), x)),
      raw_plugin_add = (\<lambda>h p x. (Returned (Fulfilled ()), x))\<rparr>"

definition test_world :: "string list \<Rightarrow> string list world" where
  \<comment> \<open>the module just loaded, with \<^verbatim>\<open>CORDOVA_CACHE=/cache\<close>, in the directory \<^verbatim>\<open>/app\<close>\<close>
  "test_world files = initial_world (Some ''/cache'') ''/home/.cordova-cache'' None ''/app'' files"

definition loaded_world :: "string list \<Rightarrow> string list world" where
  \<comment> \<open>the module with Cordova 5.1.1 loaded already\<close>
  "loaded_world files =
     (test_world files)\<lparr>cordovaVersion := Some ''5.1.1'', loadedCordovaVersion := Some ''5.1.1'',
                         cdv := Some (Handle ''cordova-lib'' None)\<rparr>"

definition bad_config :: config where
  "bad_config = \<lparr>opt_cordovaCache = None, opt_cordovaVersion = None,
                  opt_projectPath = Some ''/nowhere''\<rparr>"

definition taco_world :: "string list world" where
  \<comment> \<open>the module just loaded with \<^verbatim>\<open>CORDOVA_DEFAULT_VERSION=4.1.0\<close>, in a project that has
      a \<^verbatim>\<open>taco.json\<close>\<close>
  "taco_world =
     initial_world (Some ''/cache'') ''/home/.cordova-cache'' (Some ''4.1.0'') ''/app''
       [''/app'', ''/app/taco.json'']"

definition failing_build_node :: "string list node" where
  \<comment> \<open>the build of the ios platform is rejected\<close>
  "failing_build_node =
     test_node\<lparr>raw_build := (\<lambda>h ca x.
        if platforms ca = [''ios''] then (Returned (Rejected (External ''build failed'')), x)
        else (Returned (Fulfilled ()), x))\<rparr>"

definition one_match_node :: "string list node" where
  "one_match_node =
     test_node\<lparr>glob := (\<lambda>pat x. (Fulfilled [''/app/platforms/ios/build/device/My.app''], x))\<rparr>"

definition modern_ios_node :: "string list node" where
  \<comment> \<open>the iOS version file reads 3.9.0 and a newline\<close>
  "modern_ios_node = test_node\<lparr>readFileSync := (\<lambda>p x. Returned (''3.9.0'' @ [CHR 0x0A]))\<rparr>"

definition ios_files :: "string list" where
  "ios_files = [''/app'', ''/app/platforms/ios/CordovaLib/VERSION'']"

section \<open>Promise chains\<close>

lemma after_Q: "after c (\<lambda>w. (Fulfilled (), w)) = c"
  by (auto simp: after_def fun_eq_iff split: prod.splits promise.splits)

lemma after_Q_left: "after (Q ()) c = c"
  by (simp add: after_def Q_def)

lemma then_c_after: "then_c (after c d) f = after c (then_c d f)"
  by (auto simp: after_def then_c_def then_p_def fun_eq_iff split: prod.splits promise.splits)

lemma run_list_snoc:
  "run_list f (xs @ [x]) w = (case run_list f xs w of (p, w') \<Rightarrow> then_p p (\<lambda>u. f x) w')"
  by (induction xs arbitrary: w) (auto simp: then_p_def split: prod.splits promise.splits)

lemma then_c_run_list_snoc:
  "then_c (run_list f xs) (\<lambda>u. f x) = run_list f (xs @ [x])"
  by (simp add: fun_eq_iff then_c_def run_list_snoc)

text \<open>A loop that chains one callback per element runs the elements in order.\<close>

lemma foldl_then_c:
  "foldl (\<lambda>promise x. then_c promise (\<lambda>u. f x)) (after c (run_list f ys)) xs
     = after c (run_list f (ys @ xs))"
proof (induction xs arbitrary: ys)
  case Nil
  show ?case by simp
next
  case (Cons x xs)
  have "then_c (after c (run_list f ys)) (\<lambda>u. f x) = after c (run_list f (ys @ [x]))"
    by (simp add: then_c_after then_c_run_list_snoc)
  then show ?case using Cons.IH [of "ys @ [x]"] by simp
qed

lemma foldl_then_c_Q:
  "foldl (\<lambda>promise x. then_c promise (\<lambda>u. f x)) (Q ()) xs = run_list f xs"
proof -
  have "foldl (\<lambda>promise x. then_c promise (\<lambda>u. f x)) (after (Q ()) (run_list f [])) xs
          = after (Q ()) (run_list f ([] @ xs))"
    by (rule foldl_then_c)
  moreover have "run_list f [] = Q ()"
    by (simp add: Q_def fun_eq_iff)
  ultimately show ?thesis by (simp add: after_Q_left)
qed

lemma foldl_cond:
  "foldl (\<lambda>promise x. if P x then g promise x else promise) c xs = foldl g c (filter P xs)"
  by (induction xs arbitrary: c) auto

lemma run_list_append:
  "run_list f (xs @ ys) = after (run_list f xs) (run_list f ys)"
proof (rule ext)
  fix w show "run_list f (xs @ ys) w = after (run_list f xs) (run_list f ys) w"
    by (induction xs arbitrary: w) (auto simp: after_def split: prod.splits promise.splits)
qed

lemma run_list_map: "run_list f (map g xs) = run_list (\<lambda>x. f (g x)) xs"
proof (rule ext)
  fix w show "run_list f (map g xs) w = run_list (\<lambda>x. f (g x)) xs w"
    by (induction xs arbitrary: w) (auto split: prod.splits promise.splits)
qed

section \<open>Traces\<close>

lemma execs_append: "execs (a @ b) = execs a @ execs b"
  by (simp add: execs_def)

lemma execs_simps:
  "execs [] = []"
  "execs (Finish c # tr) = execs tr"
  "execs (Start (Exec cmd dir) # tr) = (cmd, dir) # execs tr"
  "execs (Start (Glob pat) # tr) = execs tr"
  "execs (Start (PlatformAdd h p) # tr) = execs tr"
  "execs (Start (Build h ca) # tr) = execs tr"
  "execs (Start (PluginAdd h p) # tr) = execs tr"
  by (simp_all add: execs_def)

lemma tool_call_frame:
  "tool_call node c w = (r, w') \<Longrightarrow>
     cdv w' = cdv w \<and> cordovaVersion w' = cordovaVersion w
     \<and> loadedCordovaVersion w' = loadedCordovaVersion w \<and> projectPath w' = projectPath w
     \<and> cordovaCache w' = cordovaCache w"
  by (auto simp: tool_call_def split: prod.splits)

lemma tool_call_trace:
  "tool_call node c w = (r, w') \<Longrightarrow>
     trace w' = trace w @ Start c # (if r = Returned (Fulfilled ()) then [Finish c] else [])"
  by (auto simp: tool_call_def finished_def split: prod.splits outcome.splits promise.splits)

lemma tool_call_PluginAdd_execs:
  "tool_call node (PluginAdd h p) w = (r, w') \<Longrightarrow> execs (trace w') = execs (trace w)"
  by (auto simp: tool_call_def finished_def execs_append execs_simps
      split: prod.splits outcome.splits promise.splits)

lemma mkdir_call_frame:
  "mkdir_call node p w = (r, w') \<Longrightarrow>
     trace w' = trace w \<and> cdv w' = cdv w \<and> cordovaVersion w' = cordovaVersion w
     \<and> loadedCordovaVersion w' = loadedCordovaVersion w"
  by (auto simp: mkdir_call_def split: prod.splits)

lemma exec_call_trace:
  "exec_call node cmd dir w = (p, w') \<Longrightarrow>
     execs (trace w') = execs (trace w) @ [(cmd, dir)]
     \<and> cdv w' = cdv w \<and> cordovaVersion w' = cordovaVersion w
     \<and> loadedCordovaVersion w' = loadedCordovaVersion w"
  by (auto simp: exec_call_def finished_def execs_append execs_simps
      split: prod.splits promise.splits)

text \<open>
  A run of toolchain calls leaves this trace: the first \<open>k\<close> calls, each started and
  fulfilled in turn, and, unless all were fulfilled, the start of call \<open>k\<close>, after which
  nothing is started.
\<close>

lemma run_list_tool_trace:
  "run_list (tool_call node) cs w = (q, w') \<Longrightarrow>
     \<exists>k\<le>length cs.
        trace w' = trace w @ completed (take k cs)
                    @ (if q = Fulfilled () then [] else [Start (cs ! k)])
        \<and> (q = Fulfilled ()) = (k = length cs)"
proof (induction cs arbitrary: w)
  case Nil
  then show ?case by (simp add: completed_def)
next
  case (Cons c cs)
  obtain r w1 where t: "tool_call node c w = (r, w1)" by (cases "tool_call node c w")
  note tr = tool_call_trace [OF t]
  show ?case
  proof (cases "r = Returned (Fulfilled ())")
    case True
    with Cons.prems t have "run_list (tool_call node) cs w1 = (q, w')"
      by (simp add: settle_def)
    from Cons.IH [OF this] obtain k where k: "k \<le> length cs"
      "trace w' = trace w1 @ completed (take k cs)
         @ (if q = Fulfilled () then [] else [Start (cs ! k)])"
      "(q = Fulfilled ()) = (k = length cs)" by blast
    show ?thesis
      using k tr True by (intro exI [of _ "Suc k"]) (simp add: completed_def)
  next
    case False
    with Cons.prems t have "q \<noteq> Fulfilled () \<and> w' = w1"
      by (auto simp: settle_def split: outcome.splits promise.splits)
    then show ?thesis
      using tr False by (intro exI [of _ 0]) (simp add: completed_def)
  qed
qed

section \<open>Versions compared in the instances\<close>

lemma semver_5_1_1: "semver_lt ''5.1.1'' ''3.7.0'' = Returned False"
  by code_simp

lemma semver_3_8_0: "semver_lt ''3.8.0'' ''3.9.0'' = Returned True"
  by code_simp

lemma semver_3_9_0: "semver_lt ''3.9.0'' ''3.9.0'' = Returned False"
  by code_simp

lemma semver_4_0_0: "semver_lt ''4.0.0'' ''3.9.0'' = Returned False"
  by code_simp

section \<open>configure\<close>

lemma configure_frame:
  "configure node obj w = (r, w') \<Longrightarrow>
     trace w' = trace w \<and> ext w' = ext w \<and> cdv w' = cdv w
       \<and> loadedCordovaVersion w' = loadedCordovaVersion w
       \<and> defaultCordovaVersion w' = defaultCordovaVersion w"
  by (auto simp: configure_def Let_def split: option.splits if_splits)

lemma configure_cordovaVersion:
  "configure node obj w0 = (r, w) \<Longrightarrow>
     cordovaVersion w =
       (case opt_cordovaVersion obj of Some v \<Rightarrow> Some v | None \<Rightarrow> cordovaVersion w0)"
  by (auto simp: configure_def Let_def split: option.splits if_splits)

text \<open>
  C9. Every call of \<^verbatim>\<open>configure\<close> checks the effective project path: it throws exactly
  when that path does not exist, whether the path was given in this call (then it is
  resolved first, and the resolved path is the one checked and stored) or was set before
  and only other options are given.
\<close>

theorem C9_configure_checks_effective_path:
  "fst (configure node obj w) =
     (if existsSync node (effective_projectPath node obj w) (ext w) then Returned ()
      else Threw (Thrown (''Specified project path does not exist: '' @ dquote
             @ effective_projectPath node obj w @ dquote)))
   \<and> projectPath (snd (configure node obj w)) = effective_projectPath node obj w"
  by (simp add: configure_def effective_projectPath_def Let_def split: option.splits)

text \<open>
  C7. When the project path given to \<^verbatim>\<open>configure\<close> does not exist, \<^verbatim>\<open>configure\<close> throws,
  and so does \<^verbatim>\<open>setupCordova\<close> called with these options: the result is an exception and
  not a promise, no operation was started (the trace is unchanged), the world outside is
  untouched and no toolchain was loaded.
\<close>

theorem C7_configure_throws_synchronously:
  assumes "opt_projectPath obj = Some p"
    and "\<not> existsSync node (path_resolve node p (ext w)) (ext w)"
  shows "\<exists>w'. configure node obj w =
            (Threw (Thrown (''Specified project path does not exist: '' @ dquote
               @ path_resolve node p (ext w) @ dquote)), w')
          \<and> setupCordova node (Some obj) w =
            (Threw (Thrown (''Specified project path does not exist: '' @ dquote
               @ path_resolve node p (ext w) @ dquote)), w')
          \<and> trace w' = trace w \<and> ext w' = ext w \<and> cdv w' = cdv w"
  using assms
  by (simp add: configure_def setupCordova_def Let_def split: option.splits)

text \<open>An instance of C7: the project path \<^verbatim>\<open>/nowhere\<close>, where only \<^verbatim>\<open>/app\<close> exists.\<close>

theorem C7_witness:
  "opt_projectPath bad_config = Some ''/nowhere''
   \<and> \<not> existsSync test_node (path_resolve test_node ''/nowhere'' (ext (test_world [''/app''])))
          (ext (test_world [''/app'']))
   \<and> (\<exists>w'. setupCordova test_node (Some bad_config) (test_world [''/app'']) =
            (Threw (Thrown (''Specified project path does not exist: '' @ dquote
               @ ''/nowhere'' @ dquote)), w')
          \<and> trace w' = [])"
proof -
  have h1: "opt_projectPath bad_config = Some ''/nowhere''"
    by (simp add: bad_config_def)
  have h2: "\<not> existsSync test_node (path_resolve test_node ''/nowhere'' (ext (test_world [''/app''])))
          (ext (test_world [''/app'']))"
    by (simp add: test_node_def test_world_def initial_world_def)
  have r: "path_resolve test_node ''/nowhere'' (ext (test_world [''/app''])) = ''/nowhere''"
    by (simp add: test_node_def)
  have t: "trace (test_world [''/app'']) = []"
    by (simp add: test_world_def initial_world_def)
  from C7_configure_throws_synchronously [OF h1 h2] h1 h2 show ?thesis
    unfolding r t by blast
qed

section \<open>The version setupCordova settles on\<close>

lemma mkdir_call_cordovaVersion:
  "mkdir_call node p w = (r, w') \<Longrightarrow> cordovaVersion w' = cordovaVersion w \<and> trace w' = trace w"
  by (auto simp: mkdir_call_def split: prod.splits)

text \<open>
  C4 does not hold of the code. Let no version be set, no toolchain be loaded, and the
  project have a \<^verbatim>\<open>taco.json\<close> without a \<^verbatim>\<open>cordova-cli\<close> field, so that neither of the
  first two sources gives a version. Then \<^verbatim>\<open>setupCordova\<close> does not go on to
  \<^verbatim>\<open>CORDOVA_DEFAULT_VERSION\<close> or to 5.1.1: line 58 stores the missing field, the version
  stays undefined whatever the default is, and the call throws before anything is
  started, at line 69 when the cache directory cannot be made, and otherwise at line 75
  with the TypeError of \<^verbatim>\<open>path.join\<close>.
\<close>

theorem C4_taco_without_version_not_resolved:
  assumes "cordovaVersion w = None"
    and "cdv w = None"
    and "existsSync node (path_join node [projectPath w, ''taco.json'']) (ext w)"
    and "require_json node (path_join node [projectPath w, ''taco.json''])
           ''cordova-cli'' (ext w) = Returned None"
  shows "fst (setupCordova node None w) =
           (case fst (setupCordova_cache node w) of
              Threw e \<Rightarrow> Threw e
            | Returned u \<Rightarrow> Threw (TypeError ''Arguments to path.join must be strings''))
     \<and> cordovaVersion (snd (setupCordova node None w)) = None
     \<and> trace (snd (setupCordova node None w)) = trace w"
proof -
  have "w\<lparr>cordovaVersion := None\<rparr> = w"
    using assms(1) by (cases w) simp
  then have v: "setupCordova_version node w = (Returned (), w)"
    using assms by (simp add: setupCordova_version_def)
  obtain r w2 where c: "setupCordova_cache node w = (r, w2)"
    by (cases "setupCordova_cache node w")
  then have f: "cordovaVersion w2 = None \<and> trace w2 = trace w"
    using assms(1)
    by (auto simp: setupCordova_cache_def split: if_splits dest: mkdir_call_cordovaVersion)
  have "setupCordova node None w = setupCordova_fresh node w"
    using assms(2) by (simp add: setupCordova_def)
  then show ?thesis
    using v c f by (cases r) (simp_all add: setupCordova_fresh_def setupCordova_install_def)
qed

text \<open>
  An instance of C4: \<^verbatim>\<open>CORDOVA_DEFAULT_VERSION=4.1.0\<close>, no version configured, a
  \<^verbatim>\<open>taco.json\<close> without a version. The claim gives 4.1.0; \<^verbatim>\<open>setupCordova()\<close> throws a
  TypeError and the version is undefined.
\<close>

theorem C4_witness:
  "cordovaVersion taco_world = None
   \<and> cdv taco_world = None
   \<and> defaultCordovaVersion taco_world = ''4.1.0''
   \<and> existsSync test_node (path_join test_node [projectPath taco_world, ''taco.json''])
        (ext taco_world)
   \<and> require_json test_node (path_join test_node [projectPath taco_world, ''taco.json''])
        ''cordova-cli'' (ext taco_world) = Returned None
   \<and> claimed_version None None (Some ''4.1.0'') = ''4.1.0''
   \<and> fst (setupCordova test_node None taco_world)
        = Threw (TypeError ''Arguments to path.join must be strings'')
   \<and> cordovaVersion (snd (setupCordova test_node None taco_world)) = None
   \<and> trace (snd (setupCordova test_node None taco_world)) = []"
proof -
  have h1: "cordovaVersion taco_world = None" and h2: "cdv taco_world = None"
    by (simp_all add: taco_world_def initial_world_def)
  have h3: "existsSync test_node (path_join test_node [projectPath taco_world, ''taco.json''])
        (ext taco_world)"
    by (simp add: taco_world_def initial_world_def test_node_def)
  have h4: "require_json test_node (path_join test_node [projectPath taco_world, ''taco.json''])
        ''cordova-cli'' (ext taco_world) = Returned None"
    by (simp add: test_node_def)
  have d: "defaultCordovaVersion taco_world = ''4.1.0''"
    by (simp add: taco_world_def initial_world_def js_or_def)
  have c: "fst (setupCordova_cache test_node taco_world) = Returned ()"
    by (simp add: setupCordova_cache_def mkdir_call_def taco_world_def initial_world_def
        test_node_def js_or_def)
  have t: "trace taco_world = []"
    by (simp add: taco_world_def initial_world_def)
  from C4_taco_without_version_not_resolved [OF h1 h2 h3 h4]
  show ?thesis using h1 h2 h3 h4 d by (simp add: c t claimed_version_def)
qed

section \<open>setupCordova\<close>

lemma getCordova_load_execs:
  "getCordova_load node w = (r, w') \<Longrightarrow> execs (trace w') = execs (trace w)"
  by (auto simp: getCordova_load_def Let_def then_p_def settle_def
      split: prod.splits outcome.splits option.splits handle.splits if_splits promise.splits
      dest!: tool_call_PluginAdd_execs)

lemma getCordova_load_loaded:
  "getCordova_load node w = (Returned (Fulfilled h), w') \<Longrightarrow>
     cdv w' = Some h \<and> loadedCordovaVersion w' = cordovaVersion w'"
  by (auto simp: getCordova_load_def Let_def then_p_def settle_def
      split: prod.splits outcome.splits option.splits handle.splits if_splits promise.splits
      dest!: tool_call_frame)

lemma getCordova_execs:
  "getCordova node w = (r, w') \<Longrightarrow> execs (trace w') = execs (trace w)"
  by (auto simp: getCordova_def split: option.splits if_splits dest: getCordova_load_execs)

lemma getCordova_loaded:
  "getCordova node w = (Returned (Fulfilled h), w') \<Longrightarrow>
     cdv w' = Some h \<and> loadedCordovaVersion w' = cordovaVersion w'"
  by (auto simp: getCordova_def split: option.splits if_splits dest: getCordova_load_loaded)

lemma install_command_CORDOVA: "install_command v lt = CORDOVA"
  by (simp add: install_command_def js_truthy_def)

lemma setupCordova_install_execs:
  assumes "setupCordova_install node w = (r, w')"
  shows "\<exists>cmds. execs (trace w') = execs (trace w) @ cmds \<and> length cmds \<le> 1
           \<and> fst ` set cmds \<subseteq> {CORDOVA}"
proof (cases "cordovaVersion w")
  case None
  with assms show ?thesis by (simp add: setupCordova_install_def)
next
  case (Some v)
  let ?path = "path_resolve node (path_join node [cordovaCache w, v]) (ext w)"
  show ?thesis
  proof (cases "existsSync node ?path (ext w)")
    case True
    with assms Some have "getCordova node w = (r, w')"
      by (simp add: setupCordova_install_def)
    from getCordova_execs [OF this] show ?thesis by simp
  next
    case False
    obtain r1 w1 where m1: "mkdir_call node ?path w = (r1, w1)"
      by (cases "mkdir_call node ?path w")
    obtain r2 w2 where
      m2: "mkdir_call node (path_join node [?path, ''node_modules'']) w1 = (r2, w2)"
      by (cases "mkdir_call node (path_join node [?path, ''node_modules'']) w1")
    note f1 = mkdir_call_frame [OF m1] and f2 = mkdir_call_frame [OF m2]
    show ?thesis
    proof (cases "\<exists>lt. r1 = Returned () \<and> r2 = Returned () \<and> semver_lt v ''3.7.0'' = Returned lt")
      case False
      with assms Some \<open>\<not> existsSync node ?path (ext w)\<close> m1 m2 f1 f2
      have "trace w' = trace w"
        by (auto simp: setupCordova_install_def Let_def split: outcome.splits)
      then show ?thesis by simp
    next
      case True
      then obtain lt where
        lt: "r1 = Returned ()" "r2 = Returned ()" "semver_lt v ''3.7.0'' = Returned lt"
        by blast
      obtain p w3 where e: "exec_call node (install_command v lt) (Some ?path) w2 = (p, w3)"
        by (cases "exec_call node (install_command v lt) (Some ?path) w2")
      note f3 = exec_call_trace [OF e]
      have "execs (trace w') = execs (trace w3)"
        using assms Some \<open>\<not> existsSync node ?path (ext w)\<close> m1 m2 lt e
        by (auto simp: setupCordova_install_def Let_def then_p_def settle_def handleExecReturn_def
            split: promise.splits prod.splits outcome.splits dest: getCordova_execs)
      with f1 f2 f3 install_command_CORDOVA [of v lt] show ?thesis by simp
    qed
  qed
qed

lemma setupCordova_install_loaded:
  assumes "setupCordova_install node w = (Returned (Fulfilled h), w')"
  shows "cdv w' = Some h \<and> loadedCordovaVersion w' = cordovaVersion w'"
  using assms
  by (auto simp: setupCordova_install_def Let_def then_p_def settle_def handleExecReturn_def
      split: option.splits if_splits promise.splits prod.splits outcome.splits
      dest: getCordova_loaded)

lemma setupCordova_version_frame:
  "setupCordova_version node w = (r, w') \<Longrightarrow> trace w' = trace w"
  by (auto simp: setupCordova_version_def split: if_splits outcome.splits)

lemma setupCordova_cache_frame:
  "setupCordova_cache node w = (r, w') \<Longrightarrow> trace w' = trace w"
  by (auto simp: setupCordova_cache_def split: if_splits dest: mkdir_call_frame)

lemma setupCordova_fresh_execs:
  assumes "setupCordova_fresh node w = (r, w')"
  shows "\<exists>cmds. execs (trace w') = execs (trace w) @ cmds \<and> length cmds \<le> 1
           \<and> fst ` set cmds \<subseteq> {CORDOVA}"
proof -
  obtain r1 w1 where a: "setupCordova_version node w = (r1, w1)"
    by (cases "setupCordova_version node w")
  obtain r2 w2 where b: "setupCordova_cache node w1 = (r2, w2)"
    by (cases "setupCordova_cache node w1")
  note fa = setupCordova_version_frame [OF a] and fb = setupCordova_cache_frame [OF b]
  show ?thesis
  proof (cases "r1 = Returned () \<and> r2 = Returned ()")
    case True
    with assms a b have "setupCordova_install node w2 = (r, w')"
      by (simp add: setupCordova_fresh_def)
    from setupCordova_install_execs [OF this] fa fb show ?thesis by simp
  next
    case False
    with assms a b fa fb have "trace w' = trace w"
      by (auto simp: setupCordova_fresh_def split: outcome.splits)
    then show ?thesis by simp
  qed
qed

lemma setupCordova_fresh_loaded:
  "setupCordova_fresh node w = (Returned (Fulfilled h), w') \<Longrightarrow>
     cdv w' = Some h \<and> loadedCordovaVersion w' = cordovaVersion w'"
  by (auto simp: setupCordova_fresh_def split: prod.splits outcome.splits
      dest: setupCordova_install_loaded)

text \<open>
  Whatever the version and the environment, one call of \<^verbatim>\<open>setupCordova\<close> starts at most
  one child process, and its command is the bare word \<^verbatim>\<open>cordova\<close>.
\<close>

lemma setupCordova_execs:
  assumes "setupCordova node obj w = (r, w')"
  shows "\<exists>cmds. execs (trace w') = execs (trace w) @ cmds \<and> length cmds \<le> 1
           \<and> fst ` set cmds \<subseteq> {CORDOVA}"
proof -
  obtain r0 w0 where
    c: "(case obj of None \<Rightarrow> (Returned (), w) | Some ob \<Rightarrow> configure node ob w) = (r0, w0)"
    by (cases "(case obj of None \<Rightarrow> (Returned (), w) | Some ob \<Rightarrow> configure node ob w)")
  then have t0: "trace w0 = trace w"
    by (auto split: option.splits dest: configure_frame)
  show ?thesis
  proof (cases "setupCordova_fresh node w0 = (r, w')")
    case True
    from setupCordova_fresh_execs [OF this] t0 show ?thesis by simp
  next
    case False
    with assms c have "trace w' = trace w0"
      by (auto simp: setupCordova_def split: outcome.splits option.splits if_splits)
    with t0 show ?thesis by simp
  qed
qed

lemma setupCordova_loaded:
  "setupCordova node obj w = (Returned (Fulfilled h), w') \<Longrightarrow>
     cdv w' = Some h \<and> loadedCordovaVersion w' = cordovaVersion w'"
  by (auto simp: setupCordova_def split: prod.splits outcome.splits option.splits if_splits
      dest: setupCordova_fresh_loaded)

text \<open>The first setup in the concrete environment, with an empty cache.\<close>

lemma test_setup_fresh:
  "fst (setupCordova test_node None (test_world [''/app'']))
     = Returned (Fulfilled (Handle ''/cache/5.1.1/node_modules/cordova-lib'' None))
   \<and> cordovaVersion (snd (setupCordova test_node None (test_world [''/app'']))) = Some ''5.1.1''
   \<and> execs (trace (snd (setupCordova test_node None (test_world [''/app'']))))
       = [(''cordova'', Some ''/cache/5.1.1'')]"
  by (simp add: semver_5_1_1 setupCordova_def setupCordova_fresh_def setupCordova_version_def
     setupCordova_cache_def setupCordova_install_def mkdir_call_def exec_call_def getCordova_def
     getCordova_load_def tool_call_def run_tool_def then_p_def settle_def finished_def test_node_def
     handleExecReturn_def
     test_world_def initial_world_def js_or_def DEFAULT_CORDOVA_VERSION_def install_command_def
     js_truthy_def CORDOVA_def CORDOVA_LIB_def package_name_def SUPPORT_PLUGIN_def
     SUPPORT_PLUGIN_ID_def execs_def Let_def)

lemma loaded_setup:
  "setupCordova node None (loaded_world files)
     = (Returned (Fulfilled (Handle ''cordova-lib'' None)), loaded_world files)"
  by (simp add: setupCordova_def loaded_world_def)

text \<open>
  C1 does not hold of the code. The command of lines 81 to 83 is \<^verbatim>\<open>cordova\<close> for every
  version and either outcome of the comparison with 3.7.0, never
  \<^verbatim>\<open>npm install <package>@<version>\<close>; so is every command \<^verbatim>\<open>setupCordova\<close> runs. For
  version 5.1.1, which is not below 3.7.0, a setup with an empty cache runs \<^verbatim>\<open>cordova\<close>
  in \<^verbatim>\<open>/cache/5.1.1\<close> where the claim has \<^verbatim>\<open>npm install cordova-lib@5.1.1\<close>.
\<close>

theorem C1_install_command_is_cordova:
  "install_command v lt = ''cordova''
   \<and> (\<exists>cmds. execs (trace (snd (setupCordova node obj w))) = execs (trace w) @ cmds
         \<and> fst ` set cmds \<subseteq> {''cordova''})
   \<and> semver_lt ''5.1.1'' ''3.7.0'' = Returned False
   \<and> execs (trace (snd (setupCordova test_node None (test_world [''/app'']))))
       = [(''cordova'', Some ''/cache/5.1.1'')]"
proof -
  have "setupCordova node obj w = (fst (setupCordova node obj w), snd (setupCordova node obj w))"
    by simp
  from setupCordova_execs [OF this]
  have "\<exists>cmds. execs (trace (snd (setupCordova node obj w))) = execs (trace w) @ cmds
         \<and> fst ` set cmds \<subseteq> {''cordova''}"
    unfolding CORDOVA_def by blast
  then show ?thesis
    using test_setup_fresh semver_5_1_1 install_command_CORDOVA [of v lt]
    by (simp add: CORDOVA_def)
qed

text \<open>
  C6. After a call of \<^verbatim>\<open>setupCordova\<close> whose promise was fulfilled, leaving the version
  \<open>v\<close>, a second call that keeps this version starts nothing at all (its trace is the
  one the first call left, so no process is executed): it returns the loaded toolchain,
  or throws when its options name a missing project path. The first call started at most
  one process. Here a loaded toolchain, being an object, is truthy.
\<close>

theorem C6_second_setup_is_cache_hit:
  assumes first: "setupCordova node obj w = (Returned (Fulfilled h), w1)"
    and version: "cordovaVersion w1 = Some v"
    and same: "keeps_version obj2 v"
  shows "(\<exists>cmds. execs (trace w1) = execs (trace w) @ cmds \<and> length cmds \<le> 1)
    \<and> trace (snd (setupCordova node obj2 w1)) = trace w1
    \<and> (fst (setupCordova node obj2 w1) = Returned (Fulfilled h)
        \<or> (\<exists>e. fst (setupCordova node obj2 w1) = Threw e))"
proof -
  from setupCordova_execs [OF first]
  have a: "\<exists>cmds. execs (trace w1) = execs (trace w) @ cmds \<and> length cmds \<le> 1" by blast
  note l = setupCordova_loaded [OF first]
  have b: "trace (snd (setupCordova node obj2 w1)) = trace w1
    \<and> (fst (setupCordova node obj2 w1) = Returned (Fulfilled h)
        \<or> (\<exists>e. fst (setupCordova node obj2 w1) = Threw e))"
  proof (cases obj2)
    case None
    with l show ?thesis by (simp add: setupCordova_def)
  next
    case (Some ob)
    with same have k: "opt_cordovaVersion ob = None \<or> opt_cordovaVersion ob = Some v"
      by (simp add: keeps_version_def)
    obtain r0 w0 where c: "configure node ob w1 = (r0, w0)" by (cases "configure node ob w1")
    note f = configure_frame [OF c]
    have cv: "cordovaVersion w0 = cordovaVersion w1"
      using configure_cordovaVersion [OF c] k version by (auto split: option.splits)
    show ?thesis
      using Some c f cv l by (cases r0) (simp_all add: setupCordova_def)
  qed
  from a b show ?thesis by blast
qed

text \<open>
  An instance of C6: two calls of \<^verbatim>\<open>setupCordova()\<close> on an empty cache. After both, one
  process has been executed.
\<close>

theorem C6_witness:
  "fst (setupCordova test_node None (test_world [''/app'']))
     = Returned (Fulfilled (Handle ''/cache/5.1.1/node_modules/cordova-lib'' None))
   \<and> cordovaVersion (snd (setupCordova test_node None (test_world [''/app'']))) = Some ''5.1.1''
   \<and> keeps_version None ''5.1.1''
   \<and> execs (trace (snd (setupCordova test_node None
                (snd (setupCordova test_node None (test_world [''/app''])))))) 
       = [(''cordova'', Some ''/cache/5.1.1'')]"
proof -
  let ?w1 = "snd (setupCordova test_node None (test_world [''/app'']))"
  have first: "setupCordova test_node None (test_world [''/app''])
      = (Returned (Fulfilled (Handle ''/cache/5.1.1/node_modules/cordova-lib'' None)), ?w1)"
    using test_setup_fresh by (simp add: prod_eq_iff)
  have version: "cordovaVersion ?w1 = Some ''5.1.1''"
    using test_setup_fresh by simp
  have same: "keeps_version None ''5.1.1''"
    by (simp add: keeps_version_def)
  from C6_second_setup_is_cache_hit [OF first version same]
  have "trace (snd (setupCordova test_node None ?w1)) = trace ?w1" by blast
  with test_setup_fresh same show ?thesis by simp
qed

section \<open>buildProject\<close>

lemma addPlatformsToProject_run_list:
  "addPlatformsToProject node cordova ps w =
     run_list (tool_call node) (map (PlatformAdd cordova) (filter (unregistered node w) ps))"
proof -
  have u: "(\<lambda>p. \<not> existsSync node (path_join node [projectPath w, ''platforms'', p]) (ext w))
             = unregistered node w"
    by (simp add: fun_eq_iff unregistered_def)
  show ?thesis
    unfolding addPlatformsToProject_def
    by (simp add: foldl_cond foldl_then_c_Q run_list_map u)
qed

lemma getCallArgs_PStr:
  "getCallArgs (PStr p) args = Some \<lparr>platforms = [p], options = platform_options args p\<rparr>"
  by (simp add: getCallArgs_def platform_options_def Let_def split: args.splits)

lemma buildProject_step_tool:
  "buildProject_step node cordova args p = tool_call node (build_call cordova args p)"
  by (simp add: buildProject_step_def getCallArgs_PStr build_call_def fun_eq_iff)

text \<open>
  The chain \<^verbatim>\<open>buildProject\<close> builds with its two loops is the run, in order, of the
  registrations and then the builds.
\<close>

lemma buildProject_chain_run_list:
  "buildProject_chain node ps args cordova w =
     (case run_list (tool_call node) (build_steps node cordova ps args w) w of
        (q, w') \<Rightarrow> (Returned q, w'))"
proof -
  let ?regs = "map (PlatformAdd cordova) (filter (unregistered node w) ps)"
  let ?f = "\<lambda>p. tool_call node (build_call cordova args p)"
  have "foldl (\<lambda>promise platform. then_c promise (\<lambda>u. ?f platform))
          (after (run_list (tool_call node) ?regs) (run_list ?f [])) ps
        = after (run_list (tool_call node) ?regs) (run_list ?f ([] @ ps))"
    by (rule foldl_then_c)
  moreover have "run_list ?f [] = (\<lambda>w. (Fulfilled (), w))"
    by (simp add: fun_eq_iff)
  ultimately have "foldl (\<lambda>promise platform. then_c promise (\<lambda>u. ?f platform))
          (run_list (tool_call node) ?regs) ps
        = run_list (tool_call node) (build_steps node cordova ps args w)"
    by (simp add: after_Q build_steps_def run_list_append run_list_map)
  then show ?thesis
    by (simp add: buildProject_chain_def addPlatformsToProject_run_list buildProject_step_tool)
qed

text \<open>
  C5. Let \<^verbatim>\<open>setupCordova()\<close> end in \<open>r\<close>. When \<open>r\<close> is a fulfilled promise, the trace
  \<^verbatim>\<open>buildProject\<close> adds is: the first \<open>k\<close> steps of \<open>build_steps\<close> (the registrations of the
  platforms that need one, in the order of the list, then the builds of all platforms, in
  the order of the list), each started and fulfilled before the next is started; and,
  unless the build as a whole is fulfilled, the start of step \<open>k\<close>, which was not fulfilled,
  and nothing after it. So every registration is over before the first build starts, the
  builds start in the order of the list, each after the one before was fulfilled, and a
  step that fails is the last one started. When \<open>r\<close> is anything else, no step is started.
\<close>

theorem C5_build_sequencing:
  assumes "setupCordova node None w = (r, w1)"
  shows "\<exists>q w2 k. buildProject node cordovaPlatforms args w = (q, w2)
     \<and> (case r of
          Returned (Fulfilled cordova) \<Rightarrow>
            k \<le> length (build_steps node cordova (platform_list cordovaPlatforms) args w1)
            \<and> trace w2 = trace w1
                 @ completed (take k (build_steps node cordova (platform_list cordovaPlatforms) args w1))
                 @ (if q = Returned (Fulfilled ()) then []
                    else [Start (build_steps node cordova (platform_list cordovaPlatforms) args w1 ! k)])
            \<and> (q = Returned (Fulfilled ()))
                = (k = length (build_steps node cordova (platform_list cordovaPlatforms) args w1))
        | _ \<Rightarrow> trace w2 = trace w1 \<and> q \<noteq> Returned (Fulfilled ()))"
proof (cases "\<exists>cordova. r = Returned (Fulfilled cordova)")
  case True
  then obtain cordova where r: "r = Returned (Fulfilled cordova)" ..
  let ?steps = "build_steps node cordova (platform_list cordovaPlatforms) args w1"
  obtain q w2 where run: "run_list (tool_call node) ?steps w1 = (q, w2)"
    by (cases "run_list (tool_call node) ?steps w1")
  from run_list_tool_trace [OF run] obtain k where k: "k \<le> length ?steps"
    "trace w2 = trace w1 @ completed (take k ?steps)
       @ (if q = Fulfilled () then [] else [Start (?steps ! k)])"
    "(q = Fulfilled ()) = (k = length ?steps)"
    by blast
  have "buildProject node cordovaPlatforms args w = (Returned q, w2)"
    using assms r run
    by (simp add: buildProject_def then_p_def settle_def buildProject_chain_run_list)
  with k r show ?thesis by auto
next
  case False
  then have "\<exists>q. buildProject node cordovaPlatforms args w = (q, w1) \<and> q \<noteq> Returned (Fulfilled ())"
    using assms by (cases r) (auto simp: buildProject_def then_p_def split: promise.splits)
  with False show ?thesis
    by (cases r) (auto split: promise.splits)
qed

text \<open>
  An instance of C5: android is registered already, the build of ios is rejected. ios
  and windows are registered, android is built, the build of ios is started, and windows
  is never built.
\<close>

theorem C5_witness:
  "setupCordova failing_build_node None (loaded_world [''/app'', ''/app/platforms/android''])
     = (Returned (Fulfilled (Handle ''cordova-lib'' None)),
        loaded_world [''/app'', ''/app/platforms/android''])
   \<and> trace (snd (buildProject failing_build_node (PArr [''android'', ''ios'', ''windows''])
                 ArgsUndefined (loaded_world [''/app'', ''/app/platforms/android''])))
       = completed
           [PlatformAdd (Handle ''cordova-lib'' None) ''ios'',
            PlatformAdd (Handle ''cordova-lib'' None) ''windows'',
            Build (Handle ''cordova-lib'' None) \<lparr>platforms = [''android''], options = Some []\<rparr>]
         @ [Start (Build (Handle ''cordova-lib'' None)
                     \<lparr>platforms = [''ios''], options = Some []\<rparr>)]"
proof -
  have e: "trace (snd (buildProject failing_build_node (PArr [''android'', ''ios'', ''windows''])
                 ArgsUndefined (loaded_world [''/app'', ''/app/platforms/android''])))
       = completed
           [PlatformAdd (Handle ''cordova-lib'' None) ''ios'',
            PlatformAdd (Handle ''cordova-lib'' None) ''windows'',
            Build (Handle ''cordova-lib'' None) \<lparr>platforms = [''android''], options = Some []\<rparr>]
         @ [Start (Build (Handle ''cordova-lib'' None)
                     \<lparr>platforms = [''ios''], options = Some []\<rparr>)]"
    by (simp add: buildProject_def setupCordova_def loaded_world_def test_world_def initial_world_def
       then_p_def settle_def buildProject_chain_run_list build_steps_def unregistered_def
       platform_list_def failing_build_node_def test_node_def build_call_def platform_options_def
       tool_call_def run_tool_def finished_def completed_def js_or_def)
  note s = loaded_setup [of failing_build_node "[''/app'', ''/app/platforms/android'']"]
  from C5_build_sequencing [OF s, where cordovaPlatforms = "PArr [''android'', ''ios'', ''windows'']"
        and args = ArgsUndefined]
  show ?thesis using e s by simp
qed

text \<open>
  C10. For one platform \<open>p\<close> and an args object with no entry for \<open>p\<close>, \<^verbatim>\<open>getCallArgs\<close>
  returns a bundle whose options are undefined, not an empty list; what \<^verbatim>\<open>buildProject\<close>
  chains for the platform list of \<open>p\<close> alone, given as a string or as an array, is the
  registration of \<open>p\<close>, when it needs one, and then the build call with that bundle. For
  an array of platforms whose length is not 1, \<^verbatim>\<open>getCallArgs\<close> returns undefined.
\<close>

theorem C10_undefined_options:
  assumes "m p = None"
  shows "getCallArgs (PStr p) (ArgsObject m) = Some \<lparr>platforms = [p], options = None\<rparr>
    \<and> platform_list (PStr p) = [p] \<and> platform_list (PArr [p]) = [p]
    \<and> buildProject_chain node [p] (ArgsObject m) cordova w =
        (case run_list (tool_call node)
                (map (PlatformAdd cordova) (filter (unregistered node w) [p])
                   @ [Build cordova \<lparr>platforms = [p], options = None\<rparr>]) w of
           (q, w') \<Rightarrow> (Returned q, w'))
    \<and> (length ps \<noteq> 1 \<longrightarrow> getCallArgs (PArr ps) args = None)"
  using assms
  by (simp add: getCallArgs_def Let_def buildProject_chain_run_list build_steps_def
      build_call_def platform_options_def platform_list_def)

text \<open>
  An instance of C10: a build of android, registered already, with an empty args object;
  and \<^verbatim>\<open>getCallArgs\<close> on two platforms.
\<close>

theorem C10_witness:
  "getCallArgs (PStr ''android'') (ArgsObject (\<lambda>p. None))
       = Some \<lparr>platforms = [''android''], options = None\<rparr>
   \<and> length [''android'', ''ios''] \<noteq> 1
   \<and> getCallArgs (PArr [''android'', ''ios'']) (ArgsObject (\<lambda>p. None)) = None
   \<and> trace (snd (buildProject test_node (PStr ''android'') (ArgsObject (\<lambda>p. None))
                  (loaded_world [''/app'', ''/app/platforms/android''])))
       = completed [Build (Handle ''cordova-lib'' None)
                      \<lparr>platforms = [''android''], options = None\<rparr>]"
proof -
  have e: "trace (snd (buildProject test_node (PStr ''android'') (ArgsObject (\<lambda>p. None))
                  (loaded_world [''/app'', ''/app/platforms/android''])))
       = completed [Build (Handle ''cordova-lib'' None)
                      \<lparr>platforms = [''android''], options = None\<rparr>]"
    by (simp add: buildProject_def setupCordova_def loaded_world_def test_world_def initial_world_def
       then_p_def settle_def buildProject_chain_run_list build_steps_def unregistered_def
       platform_list_def test_node_def build_call_def platform_options_def
       tool_call_def run_tool_def finished_def completed_def js_or_def)
  from C10_undefined_options [where m = "\<lambda>p. None" and p = "''android''"
         and ps = "[''android'', ''ios'']" and args = "ArgsObject (\<lambda>p. None)"
         and node = test_node and cordova = "Handle ''cordova-lib'' None"
         and w = "loaded_world [''/app'', ''/app/platforms/android'']"]
  show ?thesis using e by simp
qed

section \<open>createIpa and packageProject\<close>

text \<open>
  C8. When the file \<^verbatim>\<open>VERSION\<close> of the iOS platform is missing, the version is taken to
  be 4.0.0 and \<^verbatim>\<open>createIpa\<close> returns a fulfilled promise, the state unchanged: nothing was
  started. The same holds whenever the version, read or assumed, is a version not below
  3.9.0.
\<close>

theorem C8_version_gate:
  "(\<not> existsSync node (iosVersionFilePath node w) (ext w) \<longrightarrow>
       createIpa_version node w = Returned ''4.0.0''
       \<and> createIpa node cordova args w = (Returned (Fulfilled VUndefined), w))
   \<and> (createIpa_version node w = Returned v \<and> semver_lt v ''3.9.0'' = Returned False \<longrightarrow>
       createIpa node cordova args w = (Returned (Fulfilled VUndefined), w))"
proof -
  have a: "createIpa_version node w = Returned ''4.0.0''"
    if "\<not> existsSync node (iosVersionFilePath node w) (ext w)"
    using that by (simp add: createIpa_version_def)
  have b: "createIpa node cordova args w = (Returned (Fulfilled VUndefined), w)"
    if "createIpa_version node w = Returned v'" "semver_lt v' ''3.9.0'' = Returned False" for v'
    using that by (simp add: createIpa_def)
  from a b semver_4_0_0 show ?thesis by metis
qed

text \<open>
  An instance of C8: a project with no \<^verbatim>\<open>VERSION\<close> file, and one whose file reads 3.9.0
  and a newline.
\<close>

theorem C8_witness:
  "\<not> existsSync test_node (iosVersionFilePath test_node (loaded_world [''/app'']))
        (ext (loaded_world [''/app'']))
   \<and> createIpa test_node () ArgsUndefined (loaded_world [''/app''])
        = (Returned (Fulfilled VUndefined), loaded_world [''/app''])
   \<and> createIpa_version modern_ios_node (loaded_world ios_files) = Returned ''3.9.0''
   \<and> semver_lt ''3.9.0'' ''3.9.0'' = Returned False
   \<and> createIpa modern_ios_node () ArgsUndefined (loaded_world ios_files)
        = (Returned (Fulfilled VUndefined), loaded_world ios_files)"
proof -
  have a: "\<not> existsSync test_node (iosVersionFilePath test_node (loaded_world [''/app'']))
        (ext (loaded_world [''/app'']))"
    by (simp add: iosVersionFilePath_def test_node_def loaded_world_def test_world_def
        initial_world_def)
  have v: "createIpa_version modern_ios_node (loaded_world ios_files) = Returned ''3.9.0''"
    by (simp add: createIpa_version_def iosVersionFilePath_def modern_ios_node_def test_node_def
        loaded_world_def test_world_def initial_world_def ios_files_def is_space_def)
  from C8_version_gate [where node = test_node and w = "loaded_world [''/app'']"
         and cordova = "()" and args = ArgsUndefined]
       C8_version_gate [where node = modern_ios_node and w = "loaded_world ios_files"
         and v = "''3.9.0''" and cordova = "()" and args = ArgsUndefined]
  show ?thesis using a v semver_3_9_0 by simp
qed

text \<open>
  C2 does not hold of the code. When the iOS version is below 3.9.0 and \<^verbatim>\<open>glob\<close> finds no
  match, or more than one, \<^verbatim>\<open>createIpa\<close> starts nothing but the \<^verbatim>\<open>glob\<close> (no packaging
  command, as the claim says), and the promise it returns stays pending for ever: the
  branch of line 165 only warns, and neither resolves nor rejects the deferred.
\<close>

theorem C2_skip_leaves_promise_pending:
  assumes "createIpa_version node w = Returned v"
    and "semver_lt v ''3.9.0'' = Returned True"
    and "glob node (ios_glob_pattern w) (ext w) = (Fulfilled matches, x)"
    and "length matches \<noteq> 1"
  shows "createIpa node cordova args w =
           (Returned Pending,
            w\<lparr>ext := x,
              trace := trace w @ [Start (Glob (ios_glob_pattern w)),
                                  Finish (Glob (ios_glob_pattern w))]\<rparr>)"
  using assms
  by (simp add: createIpa_def glob_call_def createIpa_package_def finished_def)

lemma test_ios_version:
  "createIpa_version test_node (loaded_world ios_files) = Returned ''3.8.0''"
  by (simp add: createIpa_version_def iosVersionFilePath_def test_node_def loaded_world_def
      test_world_def initial_world_def ios_files_def is_space_def)

text \<open>An instance of C2: iOS platform 3.8.0, no application bundle in the build output.\<close>

theorem C2_witness:
  "createIpa_version test_node (loaded_world ios_files) = Returned ''3.8.0''
   \<and> semver_lt ''3.8.0'' ''3.9.0'' = Returned True
   \<and> glob test_node (ios_glob_pattern (loaded_world ios_files)) (ext (loaded_world ios_files))
        = (Fulfilled [], ios_files)
   \<and> length ([] :: string list) \<noteq> 1
   \<and> fst (createIpa test_node () ArgsUndefined (loaded_world ios_files)) = Returned Pending
   \<and> execs (trace (snd (createIpa test_node () ArgsUndefined (loaded_world ios_files)))) = []"
proof -
  have g: "glob test_node (ios_glob_pattern (loaded_world ios_files)) (ext (loaded_world ios_files))
        = (Fulfilled [], ios_files)"
    by (simp add: test_node_def loaded_world_def test_world_def initial_world_def)
  have n: "length ([] :: string list) \<noteq> 1" by simp
  have t: "trace (loaded_world ios_files) = []"
    by (simp add: loaded_world_def test_world_def initial_world_def)
  from C2_skip_leaves_promise_pending [OF test_ios_version semver_3_8_0 g n,
         where cordova = "()" and args = ArgsUndefined]
  show ?thesis
    using test_ios_version semver_3_8_0 g by (simp add: t execs_simps)
qed

lemma packageProject_chain_ios:
  "packageProject_chain node [''ios''] args cordova w =
     (case settle (createIpa node args ArgsUndefined w) of (q, w') \<Rightarrow> (Returned q, w'))"
  by (simp add: packageProject_chain_def then_c_def Q_def then_p_def)

lemma createIpa_one_match:
  assumes "createIpa_version node w = Returned v"
    and "semver_lt v ''3.9.0'' = Returned True"
    and "glob node (ios_glob_pattern w) (ext w) = (Fulfilled [m], x)"
  shows "\<exists>r w'. createIpa node cordova ArgsUndefined w = (Returned r, w')
           \<and> execs (trace w') = execs (trace w) @ [(xcrun_command node m, None)]"
proof -
  let ?pat = "ios_glob_pattern w"
  let ?wg = "w\<lparr>ext := x, trace := trace w @ [Start (Glob ?pat), Finish (Glob ?pat)]\<rparr>"
  have g: "glob_call node ?pat w = (Fulfilled [m], ?wg)"
    using assms(3) by (simp add: glob_call_def finished_def)
  obtain p w2 where e: "exec_call node (xcrun_command node m) None ?wg = (p, w2)"
    by (cases "exec_call node (xcrun_command node m) None ?wg")
  from exec_call_trace [OF e]
  have t: "execs (trace w2) = execs (trace w) @ [(xcrun_command node m, None)]"
    by (simp add: execs_append execs_simps)
  have "\<exists>r. createIpa_package node ArgsUndefined [m] ?wg = (r, w2)"
    using e by (cases p) (simp_all add: createIpa_package_def getCallArgs_def Let_def)
  then obtain r where "createIpa_package node ArgsUndefined [m] ?wg = (r, w2)" ..
  then have "createIpa node cordova ArgsUndefined w = (Returned r, w2)"
    using assms(1,2) g by (simp add: createIpa_def)
  with t show ?thesis by blast
qed

text \<open>
  C3 does not hold of the code. When the toolchain is set up, the iOS version is below
  3.9.0 and \<^verbatim>\<open>glob\<close> finds the one bundle \<open>m\<close>, the only process \<^verbatim>\<open>packageProject\<close> runs
  for the platform ios has the command of lines 167 and 168, which names \<open>m\<close> as input and
  the path beside it with the extension \<^verbatim>\<open>.ipa\<close> as output, with no option appended,
  whatever args were given: line 137 calls \<^verbatim>\<open>createIpa(args)\<close>, so the parameter \<^verbatim>\<open>args\<close> of
  \<^verbatim>\<open>createIpa(cordova, args)\<close> is undefined.
\<close>

theorem C3_package_drops_ios_options:
  assumes "setupCordova node None w = (Returned (Fulfilled cordova), w1)"
    and "createIpa_version node w1 = Returned v"
    and "semver_lt v ''3.9.0'' = Returned True"
    and "glob node (ios_glob_pattern w1) (ext w1) = (Fulfilled [m], x)"
  shows "execs (trace (snd (packageProject node (PStr ''ios'') args w)))
           = execs (trace w1) @ [(xcrun_command node m, None)]"
proof -
  from createIpa_one_match [OF assms(2-4), of args]
  obtain r w' where c: "createIpa node args ArgsUndefined w1 = (Returned r, w')"
    "execs (trace w') = execs (trace w1) @ [(xcrun_command node m, None)]"
    by blast
  have "packageProject node (PStr ''ios'') args w = (Returned r, w')"
    using assms(1) c(1)
    by (simp add: packageProject_def platform_list_def then_p_def packageProject_chain_ios
        settle_def)
  with c(2) show ?thesis by simp
qed

text \<open>
  An instance of C3: \<^verbatim>\<open>packageProject("ios", ["--sign", "Developer"])\<close> with the bundle
  \<^verbatim>\<open>My.app\<close>. The command ends after the output path; the two options are not in it.
\<close>

theorem C3_witness:
  "setupCordova one_match_node None (loaded_world ios_files)
     = (Returned (Fulfilled (Handle ''cordova-lib'' None)), loaded_world ios_files)
   \<and> createIpa_version one_match_node (loaded_world ios_files) = Returned ''3.8.0''
   \<and> semver_lt ''3.8.0'' ''3.9.0'' = Returned True
   \<and> glob one_match_node (ios_glob_pattern (loaded_world ios_files)) (ext (loaded_world ios_files))
        = (Fulfilled [''/app/platforms/ios/build/device/My.app''], ios_files)
   \<and> execs (trace (snd (packageProject one_match_node (PStr ''ios'')
                (ArgsArray [''--sign'', ''Developer'']) (loaded_world ios_files))))
        = [(''xcrun -sdk iphoneos PackageApplication '' @ dquote
              @ ''/app/platforms/ios/build/device/My.app'' @ dquote @ '' -o '' @ dquote
              @ ''/app/platforms/ios/build/device/My.ipa'' @ dquote @ '' '', None)]"
proof -
  have v: "createIpa_version one_match_node (loaded_world ios_files) = Returned ''3.8.0''"
    by (simp add: createIpa_version_def iosVersionFilePath_def one_match_node_def test_node_def
        loaded_world_def test_world_def initial_world_def ios_files_def is_space_def)
  have g: "glob one_match_node (ios_glob_pattern (loaded_world ios_files))
             (ext (loaded_world ios_files))
        = (Fulfilled [''/app/platforms/ios/build/device/My.app''], ios_files)"
    by (simp add: one_match_node_def test_node_def loaded_world_def test_world_def
        initial_world_def)
  have t: "execs (trace (loaded_world ios_files)) = []"
    by (simp add: loaded_world_def test_world_def initial_world_def execs_simps)
  have x: "xcrun_command one_match_node ''/app/platforms/ios/build/device/My.app''
      = ''xcrun -sdk iphoneos PackageApplication '' @ dquote
              @ ''/app/platforms/ios/build/device/My.app'' @ dquote @ '' -o '' @ dquote
              @ ''/app/platforms/ios/build/device/My.ipa'' @ dquote @ '' ''"
    by (simp add: xcrun_command_def one_match_node_def test_node_def strip_suffix_def)
  note s = loaded_setup [of one_match_node ios_files]
  from C3_package_drops_ios_options [OF s v semver_3_8_0 g,
        of "ArgsArray [''--sign'', ''Developer'']"]
  show ?thesis using s v semver_3_8_0 g by (simp add: t x)
qed

end
